theory Spec2Isabelle
  imports Main "HOL-Library.Word" "HOL-Library.Sublist" "HOL-Library.AList"
begin

unbundle bit_operations_syntax

section \<open>Data model\<close>

text \<open>
  The device-side MDM simulator of \<^verbatim>\<open>internal/device\<close>: \<^verbatim>\<open>profiles.go\<close> (profile store,
  payload installer, CSR builder) and \<^verbatim>\<open>mdmclient.go\<close> (enrollment client).
  Go strings and byte slices are \<^typ>\<open>string\<close>; Go's \<^verbatim>\<open>int\<close> is \<^typ>\<open>int\<close> (no
  arithmetic here can overflow: the only operations on it are comparisons, a right shift and
  the truncation \<^verbatim>\<open>byte(x)\<close>, which is written out as \<^term>\<open>word_of_int\<close>).
\<close>

type_synonym byte = "8 word"

text \<open>Errors are values. One constructor for each \<^verbatim>\<open>errors.New\<close>/\<^verbatim>\<open>fmt.Errorf\<close> site of the
  source; \<open>ErrExternal\<close> is an error handed back by a collaborator (bbolt, plist, crypto,
  the SCEP transport, the MDM check-in), \<open>Panic\<close> a Go run-time panic.\<close>

datatype error =
    ErrEmptyProfile
  | ErrMissingProfile string
  | ErrNoRefValue
  | ErrOneMDMPayload
  | ErrAlreadyEnrolled
  | ErrInvalidExistingMDM
  | ErrURLMismatch
  | ErrNoSCEPResult
  | ErrPayloadUUIDNotFound string
  | ErrNoResultKeychainID
  | ErrOnlyRSA
  | ErrInvalidOID "string list"
  | ErrUnhandledOID "string list"
  | ErrNoMDMPayload
  | ErrNonSignMessage
  | ErrInvalidKeychainUUID
  | ErrEnrollmentProfile
  | ErrKeychainNotFound string
  | ErrBrokenReference string
  | ErrExternal string
  | Panic string

record Device =
  UDID :: string
  Serial :: string
  ComputerName :: string
  MDMProfileIdentifier :: string
  MDMIdentityKeychainUUID :: string

text \<open>\<^verbatim>\<open>cfgprofiles.Payload\<close>, the fields common to every payload.\<close>

record Payload =
  PayloadType :: string
  PayloadIdentifier :: string
  PayloadUUID :: string

record SCEPPayloadContent =
  URL :: string
  Name :: string
  Challenge :: string
  KeyType :: string
  KeySize :: int
  KeyUsage :: int
  Subject :: "string list list list"
  CAFingerprint :: "byte list"

text \<open>Go embeds \<^verbatim>\<open>Payload\<close> in both payload structs; the embedded struct is a field here.\<close>

record SCEPPayload =
  scepCommon :: Payload
  PayloadContent :: SCEPPayloadContent

record MDMPayload =
  mdmCommon :: Payload
  IdentityCertificateUUID :: string
  ServerURL :: string
  CheckInURL :: string
  SignMessage :: bool

text \<open>The payload of a \<^verbatim>\<open>PayloadContent\<close> entry is an \<^verbatim>\<open>interface{}\<close>: a SCEP payload, an MDM
  payload or anything else. For the last, \<^verbatim>\<open>cfgprofiles.CommonPayload\<close> gives the common
  fields or \<^verbatim>\<open>nil\<close>.\<close>

datatype AnyPayload =
    SCEP SCEPPayload
  | MDM MDMPayload
  | Unknown "Payload option"

record Profile =
  ProfileIdentifier :: string
  ProfileContent :: "AnyPayload list"

subsection \<open>Key-usage extension\<close>

record asn1_BitString =
  Bytes :: "byte list"
  BitLength :: int

text \<open>\<^verbatim>\<open>pkix.Extension\<close>; \<open>ext_Value\<close> is the BIT STRING handed to \<^verbatim>\<open>asn1.Marshal\<close>
  (the DER serialisation itself is the standard library's).\<close>

record pkix_Extension =
  ext_Id :: "nat list"
  ext_Critical :: bool
  ext_Value :: asn1_BitString

definition reverseBitsInAByte :: "byte \<Rightarrow> byte" where
  "reverseBitsInAByte inb =
     (let b1 = drop_bit 4 inb OR push_bit 4 inb;
          b2 = (drop_bit 2 b1 AND 0x33) OR (push_bit 2 b1 AND 0xcc);
          b3 = (drop_bit 1 b2 AND 0x55) OR (push_bit 1 b2 AND 0xaa)
      in b3)"

text \<open>The inner loop of \<^verbatim>\<open>asn1BitLength\<close>, \<^verbatim>\<open>for bit := uint(0); bit < 8; bit++\<close>:
  \<open>Inl\<close> is the \<^verbatim>\<open>return bitLen\<close>, \<open>Inr\<close> the value of \<^verbatim>\<open>bitLen\<close> when the loop ends.\<close>

function asn1BitLength_bits :: "byte \<Rightarrow> nat \<Rightarrow> int \<Rightarrow> int + int" where
  "asn1BitLength_bits b bt bitLen =
     (if bt < 8
      then (if drop_bit bt b AND 1 = 1 then Inl bitLen
            else asn1BitLength_bits b (bt + 1) (bitLen - 1))
      else Inr bitLen)"
  by pat_completeness auto
termination
  by (relation "measure (\<lambda>(b, bt, bitLen). 8 - bt)") auto

text \<open>The outer loop, \<^verbatim>\<open>for i := range bitString\<close> with \<^verbatim>\<open>b := bitString[len(bitString)-i-1]\<close>.\<close>

function asn1BitLength_bytes :: "byte list \<Rightarrow> nat \<Rightarrow> int \<Rightarrow> int" where
  "asn1BitLength_bytes bitString i bitLen =
     (if i < length bitString
      then (case asn1BitLength_bits (bitString ! (length bitString - i - 1)) 0 bitLen of
              Inl r \<Rightarrow> r
            | Inr bitLen' \<Rightarrow> asn1BitLength_bytes bitString (i + 1) bitLen')
      else 0)"
  by pat_completeness auto
termination
  by (relation "measure (\<lambda>(bs, i, bitLen). length bs - i)") auto

declare asn1BitLength_bits.simps [simp del]
declare asn1BitLength_bytes.simps [simp del]

definition asn1BitLength :: "byte list \<Rightarrow> int" where
  "asn1BitLength bitString = asn1BitLength_bytes bitString 0 (int (length bitString) * 8)"

text \<open>\<^verbatim>\<open>byte(keyUsage)\<close> keeps the low eight bits, \<^verbatim>\<open>keyUsage >> 8\<close> is an arithmetic shift;
  \<^verbatim>\<open>a[:l]\<close> is \<^term>\<open>take l\<close>.\<close>

definition newKeyUsageExtension :: "int \<Rightarrow> pkix_Extension" where
  "newKeyUsageExtension keyUsage =
     (let a0 = reverseBitsInAByte (word_of_int keyUsage);
          a1 = reverseBitsInAByte (word_of_int (drop_bit 8 keyUsage));
          l = (if a1 \<noteq> 0 then 2 else 1);
          bitString = take l [a0, a1]
      in \<lparr> ext_Id = [2, 5, 29, 15], ext_Critical = True,
           ext_Value = \<lparr> Bytes = bitString, BitLength = asn1BitLength bitString \<rparr> \<rparr>)"

text \<open>Reading a BIT STRING back. \<open>At\<close> is \<^verbatim>\<open>asn1.BitString.At\<close> of the Go library
  (\<^verbatim>\<open>if i < 0 || i >= b.BitLength { return 0 }; x := i / 8; y := 7 - uint(i%8);
  return int(b.Bytes[x]>>y) & 1\<close>); \<open>decodeKeyUsage\<close> sets mask bit \<open>i\<close> where \<open>At i\<close> is 1,
  for every position below the bit length, the way \<^verbatim>\<open>crypto/x509\<close> reads the extension.\<close>

definition At :: "asn1_BitString \<Rightarrow> nat \<Rightarrow> bool" where
  "At bs i = (int i < BitLength bs \<and> drop_bit (7 - i mod 8) (Bytes bs ! (i div 8)) AND 1 = 1)"

definition decodeKeyUsage :: "asn1_BitString \<Rightarrow> int" where
  "decodeKeyUsage bs = horner_sum of_bool 2 (map (At bs) [0..<nat (BitLength bs)])"

subsection \<open>Key generation and the CSR template\<close>

definition defaultRSAKeySize :: int where
  "defaultRSAKeySize = 1024"

text \<open>\<^verbatim>\<open>rsa.GenerateKey(rand, keySize)\<close> is the standard library's; it is the parameter
  \<open>generateKey\<close>, from the requested size to a key or an error.\<close>

definition keyFromSCEPProfilePayload :: "(int \<Rightarrow> error + 'key) \<Rightarrow> SCEPPayload \<Rightarrow> error + 'key" where
  "keyFromSCEPProfilePayload generateKey pl =
     (let plc = PayloadContent pl in
      if KeyType plc \<noteq> '''' \<and> KeyType plc \<noteq> ''RSA'' then Inl ErrOnlyRSA
      else let keySize = (if KeySize plc > 0 then KeySize plc else defaultRSAKeySize)
           in generateKey keySize)"

text \<open>\<^verbatim>\<open>strings.NewReplacer(old1, new1, ...).Replace(s)\<close>: the string is scanned from the left;
  at each position the pairs are compared in argument order and the first \<open>old\<close> that is a
  prefix of the rest is replaced by its \<open>new\<close>, the scan going on after the match (the
  replacement is not scanned again); where no \<open>old\<close> matches, one byte is copied.
  The \<open>old\<close> strings of \<^verbatim>\<open>replaceSCEPVars\<close> are non-empty, and an empty \<open>old\<close> is not matched
  here.\<close>

fun lookupOld :: "(string \<times> string) list \<Rightarrow> string \<Rightarrow> (string \<times> string) option" where
  "lookupOld [] s = None"
| "lookupOld ((old, new) # ps) s =
     (if old \<noteq> [] \<and> prefix old s then Some (old, new) else lookupOld ps s)"

function Replace :: "(string \<times> string) list \<Rightarrow> string \<Rightarrow> string" where
  "Replace ps [] = []"
| "Replace ps (c # cs) =
     (case lookupOld ps (c # cs) of
        None \<Rightarrow> c # Replace ps cs
      | Some (old, new) \<Rightarrow> new @ Replace ps (drop (length old - 1) cs))"
  by pat_completeness auto
termination
  by (relation "measure (\<lambda>(ps, s). length s)") auto

text \<open>The pairs given to \<^verbatim>\<open>strings.NewReplacer\<close> in \<^verbatim>\<open>replaceSCEPVars\<close>.\<close>

definition scepVars :: "Device \<Rightarrow> (string \<times> string) list" where
  "scepVars device = [(''%ComputerName%'', ComputerName device),
                      (''%HardwareUUID%'', UDID device),
                      (''%SerialNumber%'', Serial device)]"

definition replaceSCEPVars :: "Device \<Rightarrow> string list \<Rightarrow> string list" where
  "replaceSCEPVars device istrs = map (Replace (scepVars device)) istrs"

record pkix_Name =
  Country :: "string list"
  Locality :: "string list"
  Province :: "string list"
  Organization :: "string list"
  OrganizationalUnit :: "string list"
  CommonName :: string

text \<open>\<^verbatim>\<open>x509util.CertificateRequest\<close>, the template of the CSR.\<close>

record CertificateRequest =
  ChallengePassword :: string
  ExtraExtensions :: "pkix_Extension list"
  csrSubject :: pkix_Name

text \<open>One \<^verbatim>\<open>onv\<close> entry of the subject: \<^verbatim>\<open>onv[0]\<close> is the attribute, \<^verbatim>\<open>onv[1:]\<close> its values.\<close>

definition subjectEntry :: "Device \<Rightarrow> string list \<Rightarrow> pkix_Name \<Rightarrow> error + pkix_Name" where
  "subjectEntry device onv subj =
     (if length onv < 2 then Inl (ErrInvalidOID onv)
      else let values = replaceSCEPVars device (tl onv) in
        if hd onv = ''C'' then Inr (subj\<lparr>Country := values\<rparr>)
        else if hd onv = ''L'' then Inr (subj\<lparr>Locality := values\<rparr>)
        else if hd onv = ''ST'' then Inr (subj\<lparr>Province := values\<rparr>)
        else if hd onv = ''O'' then Inr (subj\<lparr>Organization := values\<rparr>)
        else if hd onv = ''OU'' then Inr (subj\<lparr>OrganizationalUnit := values\<rparr>)
        else if hd onv = ''CN'' then Inr (subj\<lparr>CommonName := hd values\<rparr>)
        else Inl (ErrUnhandledOID onv))"

text \<open>The two nested loops over \<^verbatim>\<open>plc.Subject\<close>; the first error is returned.\<close>

fun subjectGroup :: "Device \<Rightarrow> string list list \<Rightarrow> pkix_Name \<Rightarrow> error + pkix_Name" where
  "subjectGroup device [] subj = Inr subj"
| "subjectGroup device (onv # onvg) subj =
     (case subjectEntry device onv subj of
        Inl e \<Rightarrow> Inl e
      | Inr subj' \<Rightarrow> subjectGroup device onvg subj')"

fun subjectGroups :: "Device \<Rightarrow> string list list list \<Rightarrow> pkix_Name \<Rightarrow> error + pkix_Name" where
  "subjectGroups device [] subj = Inr subj"
| "subjectGroups device (onvg # rest) subj =
     (case subjectGroup device onvg subj of
        Inl e \<Rightarrow> Inl e
      | Inr subj' \<Rightarrow> subjectGroups device rest subj')"

definition KeyUsageDigitalSignature :: int where
  "KeyUsageDigitalSignature = 1"

text \<open>The template that \<^verbatim>\<open>csrFromSCEPProfilePayload\<close> builds before it calls
  \<^verbatim>\<open>x509util.CreateCertificateRequest\<close>.\<close>

definition csrTemplate :: "SCEPPayload \<Rightarrow> Device \<Rightarrow> error + CertificateRequest" where
  "csrTemplate pl device =
     (let plc = PayloadContent pl;
          keyUsage = (if KeyUsage plc \<noteq> 0 then KeyUsage plc else KeyUsageDigitalSignature);
          keyUsageExtn = newKeyUsageExtension keyUsage;
          empty = \<lparr> Country = [], Locality = [], Province = [], Organization = [],
                    OrganizationalUnit = [], CommonName = [] \<rparr>
      in case subjectGroups device (Subject plc) empty of
           Inl e \<Rightarrow> Inl e
         | Inr subj \<Rightarrow>
             Inr \<lparr> ChallengePassword = Challenge plc,
                   ExtraExtensions = [keyUsageExtn],
                   csrSubject = (if CommonName subj = '''' 
                                 then subj\<lparr>CommonName := PayloadIdentifier (scepCommon pl)\<rparr>
                                 else subj) \<rparr>)"

text \<open>\<^verbatim>\<open>x509util.CreateCertificateRequest(rand, tmpl, privKey)\<close> is the parameter
  \<open>createCSR\<close>.\<close>

definition csrFromSCEPProfilePayload ::
  "(CertificateRequest \<Rightarrow> 'key \<Rightarrow> error + string) \<Rightarrow> SCEPPayload \<Rightarrow> Device \<Rightarrow> 'key \<Rightarrow> error + string" where
  "csrFromSCEPProfilePayload createCSR pl device privKey =
     (case csrTemplate pl device of
        Inl e \<Rightarrow> Inl e
      | Inr tmpl \<Rightarrow> createCSR tmpl privKey)"

section \<open>Stores, collaborators and the world\<close>

text \<open>Keys, certificates and CSRs are opaque byte strings.\<close>

type_synonym PrivateKey = string
type_synonym Certificate = string

datatype KeychainClass = ClassKey | ClassCertificate | ClassIdentity

record KeychainItem =
  kciUUID :: string
  kciClass :: KeychainClass
  kciKey :: PrivateKey
  kciCertificate :: Certificate
  IdentityKeyUUID :: string
  kciIdentityCertificateUUID :: string

text \<open>\<^verbatim>\<open>MDMClient\<close>; its \<^verbatim>\<open>Device\<close> pointer is the device of the world. A \<^verbatim>\<open>nil\<close> payload is
  \<open>None\<close>.\<close>

record MDMClient =
  clientMDMPayload :: "MDMPayload option"
  IdentityCertificate :: Certificate
  IdentityPrivateKey :: PrivateKey

text \<open>What a pass does to the outside, in order: a network call is recorded when it is made,
  a write to a store when its transaction commits.\<close>

datatype event =
    EvSCEPRequest string
  | EvKeychainSave string KeychainClass
  | EvKeychainDelete string
  | EvRefSave string string
  | EvRefRemove string
  | EvProfilePersist string
  | EvProfileRemove string
  | EvAuthenticate
  | EvTokenUpdate
  | EvUnenroll
  | EvDeviceSave

text \<open>The collaborators the code calls and that are not part of it: the plist decoder, the
  RSA and X.509 library, the SCEP exchange of \<^verbatim>\<open>scepNewPKCSReq\<close> (a sequence of calls to the
  SCEP client and the library), the MDM check-in calls and the UUID generator of
  \<^verbatim>\<open>NewKeychainItem\<close>. All of them are parameters.\<close>

record env =
  plist_Unmarshal :: "string \<Rightarrow> error + Profile"
  rsa_GenerateKey :: "int \<Rightarrow> error + PrivateKey"
  CreateCertificateRequest :: "CertificateRequest \<Rightarrow> PrivateKey \<Rightarrow> error + string"
  scepNewPKCSReq :: "string \<Rightarrow> string \<Rightarrow> string \<Rightarrow> string \<Rightarrow> byte list \<Rightarrow> error + Certificate"
  authenticate :: "MDMClient \<Rightarrow> Device \<Rightarrow> error option"
  tokenUpdate :: "MDMClient \<Rightarrow> Device \<Rightarrow> error option"
  checkinUnenroll :: "MDMClient \<Rightarrow> Device \<Rightarrow> error option"
  newUUID :: "nat \<Rightarrow> string"

text \<open>The device with its bbolt database (the buckets \<^verbatim>\<open>profiles\<close>,
  \<^verbatim>\<open>profile_payload_refs\<close> and the keychain, as association lists), the cached
  \<^verbatim>\<open>device.mdmClient\<close>, the trace of events, and two oracles: \<open>dbFaults\<close> tells for each
  coming bbolt transaction whether it fails (none fails once the list is used up),
  \<open>uuidCounter\<close> numbers the UUIDs generated so far.\<close>

record world =
  device :: Device
  profiles_bucket :: "(string \<times> string) list"
  refs_bucket :: "(string \<times> string) list"
  keychain_bucket :: "(string \<times> KeychainItem) list"
  mdmClient :: "MDMClient option"
  trace :: "event list"
  dbFaults :: "bool list"
  uuidCounter :: nat

definition emit :: "event \<Rightarrow> world \<Rightarrow> world" where
  "emit ev w = w\<lparr>trace := trace w @ [ev]\<rparr>"

text \<open>One \<^verbatim>\<open>DB.View\<close> or \<^verbatim>\<open>DB.Update\<close>: the flag says that the transaction returned an
  error.\<close>

definition dbTx :: "world \<Rightarrow> bool \<times> world" where
  "dbTx w = (case dbFaults w of [] \<Rightarrow> (False, w) | f # fs \<Rightarrow> (f, w\<lparr>dbFaults := fs\<rparr>))"

definition dbError :: error where
  "dbError = ErrExternal ''bolt''"

text \<open>Modelled from the spec: the bucket helpers \<^verbatim>\<open>BucketGet\<close>, \<^verbatim>\<open>BucketGetString\<close>,
  \<^verbatim>\<open>BucketPutOrDelete\<close>, \<^verbatim>\<open>BucketPutOrDeleteString\<close> and \<^verbatim>\<open>BucketGetKeysWithPrefix\<close> are not in
  the source files at hand. They are the byte-keyed get/put/delete and the prefix scan of
  the key-value store: a get of a missing key gives the empty value, a put of an empty value
  deletes the key, and the listed keys come without the prefix.\<close>

definition BucketGet :: "(string \<times> string) list \<Rightarrow> string \<Rightarrow> string" where
  "BucketGet bucket key = (case map_of bucket key of None \<Rightarrow> [] | Some v \<Rightarrow> v)"

definition BucketPutOrDelete :: "(string \<times> string) list \<Rightarrow> string \<Rightarrow> string \<Rightarrow> (string \<times> string) list" where
  "BucketPutOrDelete bucket key v =
     (if v = [] then AList.delete key bucket else AList.update key v bucket)"

definition BucketGetKeysWithPrefix :: "(string \<times> string) list \<Rightarrow> string \<Rightarrow> string list" where
  "BucketGetKeysWithPrefix bucket pre =
     map (drop (length pre)) (filter (prefix pre) (map fst bucket))"

subsection \<open>ProfileStore\<close>

text \<open>The store of the device is \<^verbatim>\<open>NewProfileStore(device.UDID, device.boltDB)\<close>, so \<^verbatim>\<open>ps.ID\<close>
  is the UDID.\<close>

definition profileKey :: "world \<Rightarrow> string \<Rightarrow> string" where
  "profileKey w ident = UDID (device w) @ ''_'' @ ident"

definition refKey :: "string \<Rightarrow> Payload \<Rightarrow> string \<Rightarrow> string" where
  "refKey profileID pld ekey =
     profileID @ ''_'' @ PayloadIdentifier pld @ ''_'' @ PayloadUUID pld @ ''_'' @ ekey"

definition Load :: "env \<Rightarrow> string \<Rightarrow> world \<Rightarrow> (error + Profile) \<times> world" where
  "Load E ident w =
     (case dbTx w of
        (True, w1) \<Rightarrow> (Inl dbError, w1)
      | (False, w1) \<Rightarrow>
          (let pb = BucketGet (profiles_bucket w1) (profileKey w1 ident) in
           if length pb = 0 then (Inl (ErrMissingProfile ident), w1)
           else (plist_Unmarshal E pb, w1)))"

definition persistProfile :: "string \<Rightarrow> string \<Rightarrow> world \<Rightarrow> error option \<times> world" where
  "persistProfile pb profileID w =
     (if length pb = 0 then (Some ErrEmptyProfile, w)
      else case dbTx w of
        (True, w1) \<Rightarrow> (Some dbError, w1)
      | (False, w1) \<Rightarrow>
          (None, emit (EvProfilePersist profileID)
             (w1\<lparr>profiles_bucket :=
                   BucketPutOrDelete (profiles_bucket w1) (profileKey w1 profileID) pb\<rparr>)))"

definition removeProfile :: "string \<Rightarrow> world \<Rightarrow> error option \<times> world" where
  "removeProfile profileID w =
     (case dbTx w of
        (True, w1) \<Rightarrow> (Some dbError, w1)
      | (False, w1) \<Rightarrow>
          (None, emit (EvProfileRemove profileID)
             (w1\<lparr>profiles_bucket :=
                   BucketPutOrDelete (profiles_bucket w1) (profileKey w1 profileID) []\<rparr>)))"

definition savePayloadRefString :: "string \<Rightarrow> Payload \<Rightarrow> string \<Rightarrow> string \<Rightarrow> world \<Rightarrow> error option \<times> world" where
  "savePayloadRefString profileID pld ekey v w =
     (if v = '''' then (Some ErrNoRefValue, w)
      else case dbTx w of
        (True, w1) \<Rightarrow> (Some dbError, w1)
      | (False, w1) \<Rightarrow>
          (None, emit (EvRefSave (refKey profileID pld ekey) v)
             (w1\<lparr>refs_bucket :=
                   BucketPutOrDelete (refs_bucket w1) (refKey profileID pld ekey) v\<rparr>)))"

text \<open>The callback of \<^verbatim>\<open>loadPayloadRefString\<close> returns \<^verbatim>\<open>nil\<close> whatever it reads, so the error of
  the function is the one of \<^verbatim>\<open>DB.View\<close>; a missing key gives the empty string and no error.\<close>

definition loadPayloadRefString :: "string \<Rightarrow> Payload \<Rightarrow> string \<Rightarrow> world \<Rightarrow> (error + string) \<times> world" where
  "loadPayloadRefString profileID pld ekey w =
     (case dbTx w of
        (True, w1) \<Rightarrow> (Inl dbError, w1)
      | (False, w1) \<Rightarrow> (Inr (BucketGet (refs_bucket w1) (refKey profileID pld ekey)), w1))"

definition removePayloadRefString :: "string \<Rightarrow> Payload \<Rightarrow> string \<Rightarrow> world \<Rightarrow> error option \<times> world" where
  "removePayloadRefString profileID pld ekey w =
     (case dbTx w of
        (True, w1) \<Rightarrow> (Some dbError, w1)
      | (False, w1) \<Rightarrow>
          (None, emit (EvRefRemove (refKey profileID pld ekey))
             (w1\<lparr>refs_bucket :=
                   BucketPutOrDelete (refs_bucket w1) (refKey profileID pld ekey) []\<rparr>)))"

definition ListUUIDs :: "world \<Rightarrow> (error + string list) \<times> world" where
  "ListUUIDs w =
     (case dbTx w of
        (True, w1) \<Rightarrow> (Inl dbError, w1)
      | (False, w1) \<Rightarrow>
          (Inr (BucketGetKeysWithPrefix (profiles_bucket w1) (UDID (device w1) @ ''_'')), w1))"

subsection \<open>Keychain and device persistence\<close>

text \<open>Modelled from the spec: the keychain (\<^verbatim>\<open>NewKeychainItem\<close>, \<^verbatim>\<open>Save\<close>, \<^verbatim>\<open>LoadKeychainItem\<close>,
  \<^verbatim>\<open>Delete\<close>) and \<^verbatim>\<open>Device.Save\<close> are not in the source files at hand. The Identity Store
  creates an item under a generated identifier, loads the item of an identifier (which is
  then the item's UUID) or fails with Not-Found,
  validates on the load of an Identity item that its key and certificate exist
  (Broken-Reference otherwise), and deletes an item by identifier with no cascade; each
  is one transaction of the key-value store. \<^verbatim>\<open>Device.Save\<close> is the persistence hook of the
  device, one write transaction whose outcome the callers do not read.\<close>

definition NewKeychainItem :: "env \<Rightarrow> KeychainClass \<Rightarrow> world \<Rightarrow> KeychainItem \<times> world" where
  "NewKeychainItem E cls w =
     (\<lparr> kciUUID = newUUID E (uuidCounter w), kciClass = cls, kciKey = [], kciCertificate = [],
         IdentityKeyUUID = [], kciIdentityCertificateUUID = [] \<rparr>,
      w\<lparr>uuidCounter := uuidCounter w + 1\<rparr>)"

definition kciSave :: "KeychainItem \<Rightarrow> world \<Rightarrow> error option \<times> world" where
  "kciSave kci w =
     (case dbTx w of
        (True, w1) \<Rightarrow> (Some dbError, w1)
      | (False, w1) \<Rightarrow>
          (None, emit (EvKeychainSave (kciUUID kci) (kciClass kci))
             (w1\<lparr>keychain_bucket := AList.update (kciUUID kci) kci (keychain_bucket w1)\<rparr>)))"

definition LoadKeychainItem :: "string \<Rightarrow> world \<Rightarrow> (error + KeychainItem) \<times> world" where
  "LoadKeychainItem uuid w =
     (case dbTx w of
        (True, w1) \<Rightarrow> (Inl dbError, w1)
      | (False, w1) \<Rightarrow>
          (case map_of (keychain_bucket w1) uuid of
             None \<Rightarrow> (Inl (ErrKeychainNotFound uuid), w1)
           | Some kci \<Rightarrow>
               if kciClass kci = ClassIdentity \<and>
                  (map_of (keychain_bucket w1) (IdentityKeyUUID kci) = None \<or>
                   map_of (keychain_bucket w1) (kciIdentityCertificateUUID kci) = None)
               then (Inl (ErrBrokenReference uuid), w1)
               else (Inr (kci\<lparr>kciUUID := uuid\<rparr>), w1)))"

definition kciDelete :: "KeychainItem \<Rightarrow> world \<Rightarrow> error option \<times> world" where
  "kciDelete kci w =
     (case dbTx w of
        (True, w1) \<Rightarrow> (Some dbError, w1)
      | (False, w1) \<Rightarrow>
          (None, emit (EvKeychainDelete (kciUUID kci))
             (w1\<lparr>keychain_bucket := AList.delete (kciUUID kci) (keychain_bucket w1)\<rparr>)))"

definition deviceSave :: "world \<Rightarrow> world" where
  "deviceSave w = (case dbTx w of (True, w1) \<Rightarrow> w1 | (False, w1) \<Rightarrow> emit EvDeviceSave w1)"

section \<open>Payload installer\<close>

definition PayloadRequiresNetwork :: int where
  "PayloadRequiresNetwork = 1"

definition PayloadRequiresIdentities :: int where
  "PayloadRequiresIdentities = 2"

text \<open>\<^verbatim>\<open>payloadAndResult\<close>. The field \<^verbatim>\<open>payloadAndResultRef\<close> is a pointer into the same slice
  that is written and read within one step of the install loop; the loop below looks the
  entry up where the source follows the pointer.\<close>

record payloadAndResult =
  CommonPayload :: "Payload option"
  PayloadRequiresFlags :: int
  Payload' :: AnyPayload
  StringResult :: string

definition findpayloadAndResultByUUID :: "payloadAndResult list \<Rightarrow> string \<Rightarrow> payloadAndResult option" where
  "findpayloadAndResultByUUID plds uuid =
     find (\<lambda>v. case CommonPayload v of None \<Rightarrow> False | Some c \<Rightarrow> PayloadUUID c = uuid) plds"

fun MDMPayloads :: "AnyPayload list \<Rightarrow> MDMPayload list" where
  "MDMPayloads [] = []"
| "MDMPayloads (MDM m # ps) = m # MDMPayloads ps"
| "MDMPayloads (_ # ps) = MDMPayloads ps"

definition ValidateProfileInstall :: "env \<Rightarrow> Profile \<Rightarrow> bool \<Rightarrow> world \<Rightarrow> error option \<times> world" where
  "ValidateProfileInstall E p fromMDM w =
     (let mdmPlds = MDMPayloads (ProfileContent p) in
      if length mdmPlds \<ge> 1 then
        if length mdmPlds > 1 then (Some ErrOneMDMPayload, w)
        else
          let mdmPld = hd mdmPlds in
          if fromMDM = False \<and> MDMProfileIdentifier (device w) \<noteq> '''' then (Some ErrAlreadyEnrolled, w)
          else if fromMDM then
            (case Load E (MDMProfileIdentifier (device w)) w of
               (Inl e, w1) \<Rightarrow> (Some e, w1)
             | (Inr p', w1) \<Rightarrow>
                 (let mdmPldsOld = MDMPayloads (ProfileContent p') in
                  if length mdmPlds \<noteq> 1 then (Some ErrInvalidExistingMDM, w1)
                  else case mdmPldsOld of
                         [] \<Rightarrow> (Some (Panic ''index out of range''), w1)
                       | mdmPldOld # _ \<Rightarrow>
                           if ServerURL mdmPld \<noteq> ServerURL mdmPldOld then (Some ErrURLMismatch, w1)
                           else (None, w1)))
          else (None, w)
      else (None, w))"

definition classify :: "AnyPayload \<Rightarrow> payloadAndResult" where
  "classify plc =
     (case plc of
        SCEP pl \<Rightarrow> \<lparr> CommonPayload = Some (scepCommon pl),
                      PayloadRequiresFlags = PayloadRequiresNetwork,
                      Payload' = plc, StringResult = '''' \<rparr>
      | MDM pl \<Rightarrow> \<lparr> CommonPayload = Some (mdmCommon pl),
                     PayloadRequiresFlags = PayloadRequiresNetwork OR PayloadRequiresIdentities,
                     Payload' = plc, StringResult = '''' \<rparr>
      | Unknown c \<Rightarrow> \<lparr> CommonPayload = c, PayloadRequiresFlags = 0,
                        Payload' = plc, StringResult = '''' \<rparr>)"

text \<open>\<^verbatim>\<open>sort.SliceStable\<close>: a sort that keeps elements in their order unless the comparison puts one
  before the other, here by insertion from the right.\<close>

fun insertStable :: "('a \<Rightarrow> 'a \<Rightarrow> bool) \<Rightarrow> 'a \<Rightarrow> 'a list \<Rightarrow> 'a list" where
  "insertStable lt x [] = [x]"
| "insertStable lt x (y # ys) =
     (if lt y x then y # insertStable lt x ys else x # y # ys)"

definition SliceStable :: "('a \<Rightarrow> 'a \<Rightarrow> bool) \<Rightarrow> 'a list \<Rightarrow> 'a list" where
  "SliceStable lt xs = foldr (insertStable lt) xs []"

definition classifyAndSortProfilePayloads :: "Profile \<Rightarrow> bool \<Rightarrow> payloadAndResult list" where
  "classifyAndSortProfilePayloads p ascending =
     SliceStable
       (\<lambda>a b. if ascending then PayloadRequiresFlags a > PayloadRequiresFlags b
               else PayloadRequiresFlags a < PayloadRequiresFlags b)
       (map classify (ProfileContent p))"

definition installSCEPPayload :: "env \<Rightarrow> string \<Rightarrow> SCEPPayload \<Rightarrow> world \<Rightarrow> (error + string) \<times> world" where
  "installSCEPPayload E profileID scepPayload w =
     (case keyFromSCEPProfilePayload (rsa_GenerateKey E) scepPayload of
        Inl e \<Rightarrow> (Inl e, w)
      | Inr key \<Rightarrow>
     (case csrFromSCEPProfilePayload (CreateCertificateRequest E) scepPayload (device w) key of
        Inl e \<Rightarrow> (Inl e, w)
      | Inr csrBytes \<Rightarrow>
     (case loadPayloadRefString profileID (scepCommon scepPayload) ''keychain_identity'' w of
        (Inr existingUuid, w1) \<Rightarrow> (Inr existingUuid, w1)
      | (Inl _, w1) \<Rightarrow>
     (let plc = PayloadContent scepPayload;
          w2 = emit (EvSCEPRequest (URL plc)) w1
      in case scepNewPKCSReq E csrBytes (URL plc) (Challenge plc) (Name plc) (CAFingerprint plc) of
        Inl e \<Rightarrow> (Inl e, w2)
      | Inr cert \<Rightarrow>
     (case NewKeychainItem E ClassKey w2 of (k0, w3) \<Rightarrow>
      let itemKey = k0\<lparr>kciKey := key\<rparr> in
      case kciSave itemKey w3 of
        (Some e, w4) \<Rightarrow> (Inl e, w4)
      | (None, w4) \<Rightarrow>
     (case NewKeychainItem E ClassCertificate w4 of (c0, w5) \<Rightarrow>
      let itemCert = c0\<lparr>kciCertificate := cert\<rparr> in
      case kciSave itemCert w5 of
        (Some e, w6) \<Rightarrow> (Inl e, w6)
      | (None, w6) \<Rightarrow>
     (case NewKeychainItem E ClassIdentity w6 of (i0, w7) \<Rightarrow>
      let itemID = i0\<lparr>IdentityKeyUUID := kciUUID itemKey,
                       kciIdentityCertificateUUID := kciUUID itemCert\<rparr> in
      case kciSave itemID w7 of
        (Some e, w8) \<Rightarrow> (Inl e, w8)
      | (None, w8) \<Rightarrow>
     (case savePayloadRefString profileID (scepCommon scepPayload) ''keychain_identity''
             (kciUUID itemID) w8 of
        (Some e, w9) \<Rightarrow> (Inl e, w9)
      | (None, w9) \<Rightarrow> (Inr (kciUUID itemID), w9)))))))))"

subsection \<open>MDM client\<close>

definition loadIdentityFromKeychain :: "MDMClient \<Rightarrow> string \<Rightarrow> world \<Rightarrow> (MDMClient \<times> error option) \<times> world" where
  "loadIdentityFromKeychain c uuid w =
     (if uuid = '''' then ((c, Some ErrInvalidKeychainUUID), w)
      else case LoadKeychainItem uuid w of
        (Inl e, w1) \<Rightarrow> ((c, Some e), w1)
      | (Inr itemID, w1) \<Rightarrow>
     (case LoadKeychainItem (IdentityKeyUUID itemID) w1 of
        (Inl e, w2) \<Rightarrow> ((c, Some e), w2)
      | (Inr itemKey, w2) \<Rightarrow>
     (case LoadKeychainItem (kciIdentityCertificateUUID itemID) w2 of
        (Inl e, w3) \<Rightarrow> ((c, Some e), w3)
      | (Inr itemCert, w3) \<Rightarrow>
          ((c\<lparr>IdentityPrivateKey := kciKey itemKey,
               IdentityCertificate := kciCertificate itemCert\<rparr>, None), w3))))"

text \<open>\<^verbatim>\<open>installMDMPayload\<close> calls the constructor and the enroll transition under the names
  \<^verbatim>\<open>newMDMClientUsingPayload\<close> and \<^verbatim>\<open>enroll\<close>; \<^verbatim>\<open>mdmclient.go\<close> defines them as \<^verbatim>\<open>NewMDMClient2\<close>
  and \<^verbatim>\<open>enroll2\<close>.\<close>

definition NewMDMClient2 :: "MDMPayload \<Rightarrow> world \<Rightarrow> (MDMClient \<times> error option) \<times> world" where
  "NewMDMClient2 mdmPld w =
     loadIdentityFromKeychain
       \<lparr> clientMDMPayload = Some mdmPld, IdentityCertificate = [], IdentityPrivateKey = [] \<rparr>
       (MDMIdentityKeychainUUID (device w)) w"

definition enroll2 :: "env \<Rightarrow> MDMClient \<Rightarrow> string \<Rightarrow> world \<Rightarrow> error option \<times> world" where
  "enroll2 E c profileID w =
     (case clientMDMPayload c of
        None \<Rightarrow> (Some ErrNoMDMPayload, w)
      | Some pl \<Rightarrow>
          if \<not> SignMessage pl then (Some ErrNonSignMessage, w)
          else
            let w1 = emit EvAuthenticate w in
            case authenticate E c (device w1) of
              Some e \<Rightarrow> (Some e, w1)
            | None \<Rightarrow>
                let w2 = emit EvTokenUpdate w1 in
                case tokenUpdate E c (device w2) of
                  Some e \<Rightarrow> (Some e, w2)
                | None \<Rightarrow> (None, w2\<lparr>device := (device w2)\<lparr>MDMProfileIdentifier := profileID\<rparr>\<rparr>))"

definition installMDMPayload :: "env \<Rightarrow> MDMPayload \<Rightarrow> string \<Rightarrow> world \<Rightarrow> error option \<times> world" where
  "installMDMPayload E mdmPayload profileID w =
     (case NewMDMClient2 mdmPayload w of
        ((c, Some e), w1) \<Rightarrow> (Some e, w1)
      | ((c, None), w1) \<Rightarrow>
          (case enroll2 E c profileID w1 of
             (Some e, w2) \<Rightarrow> (Some e, w2)
           | (None, w2) \<Rightarrow> (None, deviceSave w2)))"

text \<open>\<^verbatim>\<open>loadOrDeleteMDMIdentity\<close> reads \<^verbatim>\<open>c.Device.MDMIdentityKeychainUUID\<close>, not its parameter,
  and does not look at the results of the three \<^verbatim>\<open>Delete\<close> calls.\<close>

definition loadOrDeleteMDMIdentity ::
  "string \<Rightarrow> bool \<Rightarrow> world \<Rightarrow> (error + PrivateKey \<times> Certificate) \<times> world" where
  "loadOrDeleteMDMIdentity uuid del w =
     (case LoadKeychainItem (MDMIdentityKeychainUUID (device w)) w of
        (Inl e, w1) \<Rightarrow> (Inl e, w1)
      | (Inr itemID, w1) \<Rightarrow>
     (case LoadKeychainItem (IdentityKeyUUID itemID) w1 of
        (Inl e, w2) \<Rightarrow> (Inl e, w2)
      | (Inr itemKey, w2) \<Rightarrow>
     (case LoadKeychainItem (kciIdentityCertificateUUID itemID) w2 of
        (Inl e, w3) \<Rightarrow> (Inl e, w3)
      | (Inr itemCert, w3) \<Rightarrow>
          (Inr (kciKey itemKey, kciCertificate itemCert),
           if del then snd (kciDelete itemID (snd (kciDelete itemKey (snd (kciDelete itemCert w3)))))
           else w3))))"

definition NewMDMClient :: "env \<Rightarrow> world \<Rightarrow> (MDMClient \<times> error option) \<times> world" where
  "NewMDMClient E w =
     (let c = \<lparr> clientMDMPayload = None, IdentityCertificate = [], IdentityPrivateKey = [] \<rparr>;
          r1 = (if MDMIdentityKeychainUUID (device w) \<noteq> ''''
                then (case loadOrDeleteMDMIdentity (MDMIdentityKeychainUUID (device w)) False w of
                        (Inl e, w1) \<Rightarrow> ((c, Some e), w1)
                      | (Inr (k, crt), w1) \<Rightarrow>
                          ((c\<lparr>IdentityPrivateKey := k, IdentityCertificate := crt\<rparr>, None), w1))
                else ((c, None), w))
      in case r1 of
           ((c1, Some e), w1) \<Rightarrow> ((c1, Some e), w1)
         | ((c1, None), w1) \<Rightarrow>
             if MDMProfileIdentifier (device w1) \<noteq> '''' then
               (case Load E (MDMProfileIdentifier (device w1)) w1 of
                  (Inl e, w2) \<Rightarrow> ((c1, Some e), w2)
                | (Inr profile, w2) \<Rightarrow>
                    (case MDMPayloads (ProfileContent profile) of
                       [m] \<Rightarrow> ((c1\<lparr>clientMDMPayload := Some m\<rparr>, None), w2)
                     | _ \<Rightarrow> ((c1, Some ErrEnrollmentProfile), w2)))
             else ((c1, None), w1))"

text \<open>\<^verbatim>\<open>device.MDMClient()\<close>, with the cache \<^verbatim>\<open>device.mdmClient\<close>: the client is stored also when
  its construction failed.\<close>

definition getMDMClient :: "env \<Rightarrow> world \<Rightarrow> (MDMClient \<times> error option) \<times> world" where
  "getMDMClient E w =
     (case mdmClient w of
        None \<Rightarrow> (case NewMDMClient E w of ((c, err), w1) \<Rightarrow> ((c, err), w1\<lparr>mdmClient := Some c\<rparr>))
      | Some c \<Rightarrow> ((c, None), w))"

text \<open>Modelled from the spec: \<^verbatim>\<open>unenroll\<close> is not in the source files at hand. The Unenroll
  transition invokes the check-in collaborator's unenroll call, then clears
  \<^verbatim>\<open>MDMProfileIdentifier\<close>.\<close>

definition unenroll :: "env \<Rightarrow> MDMClient \<Rightarrow> world \<Rightarrow> error option \<times> world" where
  "unenroll E c w =
     (let w1 = emit EvUnenroll w in
      case checkinUnenroll E c (device w1) of
        Some e \<Rightarrow> (Some e, w1)
      | None \<Rightarrow> (None, w1\<lparr>device := (device w1)\<lparr>MDMProfileIdentifier := ''''\<rparr>\<rparr>))"

subsection \<open>Install and remove passes\<close>

text \<open>The loop of \<^verbatim>\<open>installProfile\<close> over \<^verbatim>\<open>orderedPayloads\<close>: \<open>done\<close> are the entries already
  processed, with their results, \<open>pr # rest\<close> the entries still to process, so that the
  slice as the source sees it is \<open>done @ pr # rest\<close>. The \<^verbatim>\<open>default\<close> branch prints
  \<^verbatim>\<open>pr.CommonPayload.PayloadType\<close>, which panics on a \<^verbatim>\<open>nil\<close> pointer.\<close>

fun installPayloads ::
  "env \<Rightarrow> string \<Rightarrow> payloadAndResult list \<Rightarrow> payloadAndResult list \<Rightarrow> world \<Rightarrow> error option \<times> world" where
  "installPayloads E profileID done [] w = (None, w)"
| "installPayloads E profileID done (pr # rest) w =
     (case Payload' pr of
        SCEP pl \<Rightarrow>
          (case installSCEPPayload E profileID pl w of
             (Inl e, w1) \<Rightarrow> (Some e, w1)
           | (Inr r, w1) \<Rightarrow>
               if r = '''' then (Some ErrNoSCEPResult, w1)
               else installPayloads E profileID (done @ [pr\<lparr>StringResult := r\<rparr>]) rest w1)
      | MDM pl \<Rightarrow>
          (case findpayloadAndResultByUUID (done @ pr # rest) (IdentityCertificateUUID pl) of
             None \<Rightarrow> (Some (ErrPayloadUUIDNotFound (IdentityCertificateUUID pl)), w)
           | Some ref \<Rightarrow>
               if StringResult ref = '''' then (Some ErrNoResultKeychainID, w)
               else
                 (let w1 = deviceSave
                             (w\<lparr>device := (device w)\<lparr>MDMIdentityKeychainUUID := StringResult ref\<rparr>\<rparr>)
                  in case installMDMPayload E pl profileID w1 of
                       (Some e, w2) \<Rightarrow> (Some e, w2)
                     | (None, w2) \<Rightarrow> installPayloads E profileID (done @ [pr]) rest w2))
      | Unknown _ \<Rightarrow>
          (case CommonPayload pr of
             None \<Rightarrow> (Some (Panic ''nil pointer dereference''), w)
           | Some _ \<Rightarrow> installPayloads E profileID (done @ [pr]) rest w))"

definition removeSCEPPayload :: "string \<Rightarrow> SCEPPayload \<Rightarrow> world \<Rightarrow> error option \<times> world" where
  "removeSCEPPayload profileID scepPayload w =
     (case loadPayloadRefString profileID (scepCommon scepPayload) ''keychain_identity'' w of
        (Inl e, w1) \<Rightarrow> (Some e, w1)
      | (Inr refStr, w1) \<Rightarrow>
     (case LoadKeychainItem refStr w1 of
        (Inl e, w2) \<Rightarrow> (Some e, w2)
      | (Inr itemID, w2) \<Rightarrow>
     (case LoadKeychainItem (IdentityKeyUUID itemID) w2 of
        (Inl e, w3) \<Rightarrow> (Some e, w3)
      | (Inr itemKey, w3) \<Rightarrow>
     (case LoadKeychainItem (kciIdentityCertificateUUID itemID) w3 of
        (Inl e, w4) \<Rightarrow> (Some e, w4)
      | (Inr itemCert, w4) \<Rightarrow>
     (case kciDelete itemCert w4 of
        (Some e, w5) \<Rightarrow> (Some e, w5)
      | (None, w5) \<Rightarrow>
     (case kciDelete itemKey w5 of
        (Some e, w6) \<Rightarrow> (Some e, w6)
      | (None, w6) \<Rightarrow>
     (case kciDelete itemID w6 of
        (Some e, w7) \<Rightarrow> (Some e, w7)
      | (None, w7) \<Rightarrow>
          removePayloadRefString profileID (scepCommon scepPayload) ''keychain_identity'' w7)))))))"

definition removeMDMPayload :: "env \<Rightarrow> world \<Rightarrow> error option \<times> world" where
  "removeMDMPayload E w =
     (case getMDMClient E w of
        ((c, Some e), w1) \<Rightarrow> (Some e, w1)
      | ((c, None), w1) \<Rightarrow>
          (case unenroll E c w1 of
             (Some e, w2) \<Rightarrow> (Some e, w2)
           | (None, w2) \<Rightarrow> (None, deviceSave w2)))"

text \<open>The loop of \<^verbatim>\<open>RemoveProfile\<close>: the error of a payload is printed and the loop goes on;
  only the panic of the \<^verbatim>\<open>default\<close> branch on a \<^verbatim>\<open>nil\<close> pointer ends it.\<close>

fun removePayloads :: "env \<Rightarrow> string \<Rightarrow> payloadAndResult list \<Rightarrow> world \<Rightarrow> error option \<times> world" where
  "removePayloads E profileID [] w = (None, w)"
| "removePayloads E profileID (pr # rest) w =
     (case Payload' pr of
        SCEP pl \<Rightarrow> removePayloads E profileID rest (snd (removeSCEPPayload profileID pl w))
      | MDM pl \<Rightarrow> removePayloads E profileID rest (snd (removeMDMPayload E w))
      | Unknown _ \<Rightarrow>
          (case CommonPayload pr of
             None \<Rightarrow> (Some (Panic ''nil pointer dereference''), w)
           | Some _ \<Rightarrow> removePayloads E profileID rest w))"

definition RemoveProfile :: "env \<Rightarrow> string \<Rightarrow> world \<Rightarrow> error option \<times> world" where
  "RemoveProfile E profileID w =
     (case Load E profileID w of
        (Inl e, w1) \<Rightarrow> (Some e, w1)
      | (Inr p, w1) \<Rightarrow>
          (case removePayloads E (ProfileIdentifier p) (classifyAndSortProfilePayloads p True) w1 of
             (Some e, w2) \<Rightarrow> (Some e, w2)
           | (None, w2) \<Rightarrow> removeProfile (ProfileIdentifier p) w2))"

text \<open>\<^verbatim>\<open>for _, uuid := range uuids { if uuid == p.PayloadIdentifier { matched = uuid } }\<close>\<close>

definition matchedUUID :: "string list \<Rightarrow> string \<Rightarrow> string" where
  "matchedUUID uuids ident = foldl (\<lambda>matched uuid. if uuid = ident then uuid else matched) '''' uuids"

definition isPanic :: "error option \<Rightarrow> bool" where
  "isPanic r = (case r of Some (Panic _) \<Rightarrow> True | _ \<Rightarrow> False)"

text \<open>The value of \<^verbatim>\<open>device.RemoveProfile(matched)\<close> is dropped; a panic inside it is not a
  value and ends the pass.\<close>

definition installProfile :: "env \<Rightarrow> string \<Rightarrow> bool \<Rightarrow> world \<Rightarrow> error option \<times> world" where
  "installProfile E pb fromMDM w =
     (if length pb = 0 then (Some ErrEmptyProfile, w)
      else case plist_Unmarshal E pb of
        Inl e \<Rightarrow> (Some e, w)
      | Inr p \<Rightarrow>
     (case ValidateProfileInstall E p fromMDM w of
        (Some e, w1) \<Rightarrow> (Some e, w1)
      | (None, w1) \<Rightarrow>
     (case ListUUIDs w1 of
        (Inl e, w2) \<Rightarrow> (Some e, w2)
      | (Inr uuids, w2) \<Rightarrow>
     (let matched = matchedUUID uuids (ProfileIdentifier p);
          removed = (if matched \<noteq> '''' then RemoveProfile E matched w2 else (None, w2))
      in if isPanic (fst removed) then removed
         else
           (case installPayloads E (ProfileIdentifier p) []
                   (classifyAndSortProfilePayloads p False) (snd removed) of
              (Some e, w4) \<Rightarrow> (Some e, w4)
            | (None, w4) \<Rightarrow> persistProfile pb (ProfileIdentifier p) w4)))))"

definition InstallProfile :: "env \<Rightarrow> string \<Rightarrow> world \<Rightarrow> error option \<times> world" where
  "InstallProfile E pb w = installProfile E pb False w"

definition installProfileFromMDM :: "env \<Rightarrow> string \<Rightarrow> world \<Rightarrow> error option \<times> world" where
  "installProfileFromMDM E pb w = installProfile E pb True w"

section \<open>Example inputs\<close>

text \<open>A device, an enrollment profile with an MDM payload declared before the SCEP payload
  it references, and collaborators that all succeed.\<close>

definition exSCEP :: SCEPPayload where
  "exSCEP = \<lparr> scepCommon = \<lparr> PayloadType = ''com.apple.security.scep'',
                              PayloadIdentifier = ''scep.id'', PayloadUUID = ''U-SCEP'' \<rparr>,
     PayloadContent = \<lparr> URL = ''http://ca/scep'', Name = ''CA'', Challenge = ''secret'',
        KeyType = ''RSA'', KeySize = 2048, KeyUsage = 5,
        Subject = [[[''CN'', ''%SerialNumber%'']], [[''O'', ''%HostName%'']]],
        CAFingerprint = [] \<rparr> \<rparr>"

definition exMDM :: MDMPayload where
  "exMDM = \<lparr> mdmCommon = \<lparr> PayloadType = ''com.apple.mdm'',
                            PayloadIdentifier = ''mdm.id'', PayloadUUID = ''U-MDM'' \<rparr>,
     IdentityCertificateUUID = ''U-SCEP'', ServerURL = ''https://mdm/connect'',
     CheckInURL = ''https://mdm/checkin'', SignMessage = True \<rparr>"

definition exProfile :: Profile where
  "exProfile = \<lparr> ProfileIdentifier = ''enroll'', ProfileContent = [MDM exMDM, SCEP exSCEP] \<rparr>"

definition exProfile2 :: Profile where
  "exProfile2 = \<lparr> ProfileIdentifier = ''two'', ProfileContent = [MDM exMDM, MDM exMDM] \<rparr>"

definition exEnv :: env where
  "exEnv = \<lparr> plist_Unmarshal =
       (\<lambda>pb. if pb = ''P'' then Inr exProfile
              else if pb = ''Q'' then Inr exProfile2
              else Inl (ErrExternal ''plist'')),
     rsa_GenerateKey = (\<lambda>n. Inr ''key''),
     CreateCertificateRequest = (\<lambda>t k. Inr ''csr''),
     scepNewPKCSReq = (\<lambda>csr url ch nm fp. Inr ''cert''),
     authenticate = (\<lambda>c d. None),
     tokenUpdate = (\<lambda>c d. None),
     checkinUnenroll = (\<lambda>c d. None),
     newUUID = (\<lambda>n. if n = 0 then ''K0'' else if n = 1 then ''K1'' else ''K2'') \<rparr>"

definition exDevice :: Device where
  "exDevice = \<lparr> UDID = ''D1'', Serial = ''P3IJDS49Z90A'', ComputerName = ''Mac'',
     MDMProfileIdentifier = '''', MDMIdentityKeychainUUID = '''' \<rparr>"

definition exWorld :: world where
  "exWorld = \<lparr> device = exDevice, profiles_bucket = [], refs_bucket = [], keychain_bucket = [],
     mdmClient = None, trace = [], dbFaults = [], uuidCounter = 0 \<rparr>"

text \<open>The same device with an identity in the keychain (key \<open>K0\<close>, certificate \<open>K1\<close>,
  identity \<open>K2\<close>) and the payload reference of the SCEP payload pointing to it.\<close>

definition exKeychain :: "(string \<times> KeychainItem) list" where
  "exKeychain =
     [(''K0'', \<lparr> kciUUID = ''K0'', kciClass = ClassKey, kciKey = ''key'', kciCertificate = [],
                 IdentityKeyUUID = [], kciIdentityCertificateUUID = [] \<rparr>),
      (''K1'', \<lparr> kciUUID = ''K1'', kciClass = ClassCertificate, kciKey = [],
                 kciCertificate = ''cert'', IdentityKeyUUID = [],
                 kciIdentityCertificateUUID = [] \<rparr>),
      (''K2'', \<lparr> kciUUID = ''K2'', kciClass = ClassIdentity, kciKey = [], kciCertificate = [],
                 IdentityKeyUUID = ''K0'', kciIdentityCertificateUUID = ''K1'' \<rparr>)]"

definition exIssued :: world where
  "exIssued = exWorld\<lparr> keychain_bucket := exKeychain,
     refs_bucket := [(''enroll_scep.id_U-SCEP_keychain_identity'', ''K2'')],
     uuidCounter := 3 \<rparr>"

section \<open>Key generation\<close>

text \<open>
  C7. For a SCEP payload whose KeyType is unset or \<open>RSA\<close>, key generation asks the RSA
  generator for a key of KeySize bits when KeySize is positive and of 1024 bits otherwise,
  and returns what the generator returns; for any other KeyType it returns the
  not-supported error and no key.
\<close>

theorem keyFromSCEPProfilePayload_size:
  "keyFromSCEPProfilePayload generateKey pl =
     (if KeyType (PayloadContent pl) = '''' \<or> KeyType (PayloadContent pl) = ''RSA''
      then generateKey (if 0 < KeySize (PayloadContent pl) then KeySize (PayloadContent pl) else 1024)
      else Inl ErrOnlyRSA)"
  by (simp add: keyFromSCEPProfilePayload_def defaultRSAKeySize_def Let_def)

section \<open>Key-usage extension\<close>

lemma and_one_bit: "(drop_bit n (b::byte) AND 1 = 1) = bit b n"
  by (simp add: and_one_eq bit_iff_odd_drop_bit odd_iff_mod_2_eq_one)


lemma bits_step:
  "bt < 8 \<Longrightarrow> asn1BitLength_bits b bt bitLen =
     (if bit b bt then Inl bitLen else asn1BitLength_bits b (bt + 1) (bitLen - 1))"
  by (subst asn1BitLength_bits.simps) (simp add: and_one_bit)

lemma bits_stop: "\<not> bt < 8 \<Longrightarrow> asn1BitLength_bits b bt bitLen = Inr bitLen"
  by (subst asn1BitLength_bits.simps) simp

lemma bits_Inl:
  "asn1BitLength_bits b j bl = Inl r \<Longrightarrow>
     \<exists>k. r = bl - int k \<and> j + k < 8 \<and> bit b (j + k) \<and> (\<forall>t. j \<le> t \<and> t < j + k \<longrightarrow> \<not> bit b t)"
proof (induction b j bl rule: asn1BitLength_bits.induct)
  case (1 b bt bitLen)
  show ?case
  proof (cases "bt < 8")
    case False
    with "1.prems" show ?thesis by (simp add: bits_stop)
  next
    case lt: True
    show ?thesis
    proof (cases "bit b bt")
      case True
      with lt "1.prems" have "r = bitLen" by (simp add: bits_step)
      with True lt show ?thesis by (intro exI [of _ 0]) auto
    next
      case False
      with lt "1.prems" have "asn1BitLength_bits b (bt + 1) (bitLen - 1) = Inl r"
        by (simp add: bits_step)
      with "1.IH" lt False obtain k where k: "r = bitLen - 1 - int k" "bt + 1 + k < 8"
        "bit b (bt + 1 + k)" "\<forall>t. bt + 1 \<le> t \<and> t < bt + 1 + k \<longrightarrow> \<not> bit b t"
        by (auto simp: and_one_bit)
      have "\<forall>t. bt \<le> t \<and> t < bt + Suc k \<longrightarrow> \<not> bit b t"
      proof (intro allI impI)
        fix t assume "bt \<le> t \<and> t < bt + Suc k"
        then have "t = bt \<or> (bt + 1 \<le> t \<and> t < bt + 1 + k)" by arith
        with False k(4) show "\<not> bit b t" by blast
      qed
      with k show ?thesis by (intro exI [of _ "Suc k"]) simp
    qed
  qed
qed

lemma bits_Inr:
  "asn1BitLength_bits b j bl = Inr r \<Longrightarrow> j \<le> 8 \<Longrightarrow>
     r = bl - int (8 - j) \<and> (\<forall>t. j \<le> t \<and> t < 8 \<longrightarrow> \<not> bit b t)"
proof (induction b j bl rule: asn1BitLength_bits.induct)
  case (1 b bt bitLen)
  show ?case
  proof (cases "bt < 8")
    case False
    with "1.prems" show ?thesis by (auto simp: bits_stop)
  next
    case lt: True
    with "1.prems" have nb: "\<not> bit b bt" and rec: "asn1BitLength_bits b (bt + 1) (bitLen - 1) = Inr r"
      by (auto simp: bits_step split: if_splits)
    with "1.IH" lt have ih: "r = bitLen - 1 - int (8 - (bt + 1))" "\<forall>t. bt + 1 \<le> t \<and> t < 8 \<longrightarrow> \<not> bit b t"
      by (auto simp: and_one_bit)
    have "\<forall>t. bt \<le> t \<and> t < 8 \<longrightarrow> \<not> bit b t"
    proof (intro allI impI)
      fix t assume "bt \<le> t \<and> t < 8"
      then have "t = bt \<or> (bt + 1 \<le> t \<and> t < 8)" by arith
      with nb ih(2) show "\<not> bit b t" by blast
    qed
    with ih(1) lt show ?thesis by simp
  qed
qed

lemma bits_zero_Inr:
  "\<forall>t < 8. \<not> bit b t \<Longrightarrow> j \<le> 8 \<Longrightarrow> asn1BitLength_bits b j bl = Inr (bl - int (8 - j))"
proof (induction b j bl rule: asn1BitLength_bits.induct)
  case (1 b bt bitLen)
  show ?case
  proof (cases "bt < 8")
    case False
    with "1.prems" show ?thesis by (simp add: bits_stop)
  next
    case True
    with "1.prems" have nb: "\<not> bit b bt" by simp
    with True "1.IH" "1.prems" have "asn1BitLength_bits b (bt + 1) (bitLen - 1) = Inr (bitLen - 1 - int (8 - (bt + 1)))"
      by (simp add: and_one_bit)
    with True nb show ?thesis
      by (simp add: bits_step)
  qed
qed

lemma bits_nonzero_Inl:
  "bit b t \<Longrightarrow> j \<le> t \<Longrightarrow> t < 8 \<Longrightarrow> \<exists>r. asn1BitLength_bits b j bl = Inl r"
proof (induction b j bl rule: asn1BitLength_bits.induct)
  case (1 b bt bitLen)
  then have lt: "bt < 8" by simp
  show ?case
  proof (cases "bit b bt")
    case True
    with lt show ?thesis by (simp add: bits_step)
  next
    case False
    with "1.prems" have "bt + 1 \<le> t" by (cases "bt = t") auto
    with "1.IH" lt False "1.prems" have "\<exists>r. asn1BitLength_bits b (bt + 1) (bitLen - 1) = Inl r"
      by (simp add: and_one_bit)
    with lt False show ?thesis by (simp add: bits_step)
  qed
qed


lemma bit_reverse_each:
  "bit (reverseBitsInAByte b) 0 = bit b 7"
  "bit (reverseBitsInAByte b) 1 = bit b 6"
  "bit (reverseBitsInAByte b) 2 = bit b 5"
  "bit (reverseBitsInAByte b) 3 = bit b 4"
  "bit (reverseBitsInAByte b) 4 = bit b 3"
  "bit (reverseBitsInAByte b) 5 = bit b 2"
  "bit (reverseBitsInAByte b) 6 = bit b 1"
  "bit (reverseBitsInAByte b) 7 = bit b 0"
  unfolding reverseBitsInAByte_def Let_def
  by (simp_all only: bit_or_iff bit_and_iff bit_drop_bit_eq bit_push_bit_iff o_apply)
     (auto dest: bit_imp_le_length)

lemma bit_reverse: "i < 8 \<Longrightarrow> bit (reverseBitsInAByte b) i = bit b (7 - i)"
proof -
  assume "i < 8"
  then have "i \<in> set [0 ..< 8]" by simp
  also have "[0 ..< 8] = [0, 1, 2, 3, 4, 5, 6, 7 :: nat]" by code_simp
  finally have "i \<in> {0, 1, 2, 3, 4, 5, 6, 7}" by simp
  then show ?thesis
    using bit_reverse_each [of b] by (elim insertE emptyE) simp_all
qed

lemma byte_zero_iff: "(b :: byte) = 0 \<longleftrightarrow> (\<forall>t<8. \<not> bit b t)"
proof
  assume "b = 0" then show "\<forall>t<8. \<not> bit b t" by simp
next
  assume z: "\<forall>t<8. \<not> bit b t"
  show "b = 0"
  proof (rule bit_word_eqI)
    fix n assume "n < LENGTH(8)"
    with z show "bit b n = bit (0 :: byte) n" by simp
  qed
qed

lemma reverse_zero_iff: "reverseBitsInAByte b = 0 \<longleftrightarrow> b = 0"
proof -
  have "(\<forall>t<8. \<not> bit (reverseBitsInAByte b) t) \<longleftrightarrow> (\<forall>t<8. \<not> bit b t)"
  proof
    assume l: "\<forall>t<8. \<not> bit (reverseBitsInAByte b) t"
    show "\<forall>t<8. \<not> bit b t"
    proof (intro allI impI)
      fix t :: nat assume "t < 8"
      then have "7 - t < 8" "7 - (7 - t) = t" by auto
      with l bit_reverse [of "7 - t" b] show "\<not> bit b t" by auto
    qed
  next
    assume "\<forall>t<8. \<not> bit b t"
    then show "\<forall>t<8. \<not> bit (reverseBitsInAByte b) t"
      by (auto simp: bit_reverse)
  qed
  then show ?thesis by (simp add: byte_zero_iff)
qed

lemma bitLength_one:
  "0 \<le> asn1BitLength [a] \<and> asn1BitLength [a] \<le> 8 \<and>
   (\<forall>p<8. asn1BitLength [a] \<le> int p \<longrightarrow> \<not> bit a (7 - p)) \<and>
   (0 < asn1BitLength [a] \<longrightarrow> bit a (8 - nat (asn1BitLength [a])))"
proof (cases "asn1BitLength_bits a 0 8")
  case (Inl r)
  then have n: "asn1BitLength [a] = r"
    by (simp add: asn1BitLength_def asn1BitLength_bytes.simps [of "[a]" 0])
  from bits_Inl [OF Inl] obtain k where k: "r = 8 - int k" "k < 8" "bit a k" "\<forall>t<k. \<not> bit a t"
    by auto
  have "\<forall>p<8. r \<le> int p \<longrightarrow> \<not> bit a (7 - p)"
  proof (intro allI impI)
    fix p :: nat assume "p < 8" "r \<le> int p"
    with k(1) have "7 - p < k" by linarith
    with k(4) show "\<not> bit a (7 - p)" by simp
  qed
  moreover from k have "8 - nat r = k" by simp
  ultimately show ?thesis using n k by simp
next
  case (Inr r)
  from bits_Inr [OF Inr] have z: "\<forall>t<8. \<not> bit a t" by simp
  from Inr have "asn1BitLength [a] = 0"
    by (simp add: asn1BitLength_def asn1BitLength_bytes.simps [of "[a]" 0]
        asn1BitLength_bytes.simps [of "[a]" "Suc 0"])
  with z show ?thesis by simp
qed

lemma bitLength_two:
  assumes "a1 \<noteq> 0"
  shows "8 < asn1BitLength [a0, a1] \<and> asn1BitLength [a0, a1] \<le> 16 \<and>
   (\<forall>p. 8 \<le> p \<and> p < 16 \<and> asn1BitLength [a0, a1] \<le> int p \<longrightarrow> \<not> bit a1 (15 - p)) \<and>
   bit a1 (16 - nat (asn1BitLength [a0, a1]))"
proof -
  from assms obtain t where "t < 8" "bit a1 t" by (auto simp: byte_zero_iff)
  with bits_nonzero_Inl [of a1 t 0 16] obtain r where Inl: "asn1BitLength_bits a1 0 16 = Inl r"
    by auto
  then have n: "asn1BitLength [a0, a1] = r"
    by (simp add: asn1BitLength_def asn1BitLength_bytes.simps [of "[a0, a1]" 0])
  from bits_Inl [OF Inl] obtain k where k: "r = 16 - int k" "k < 8" "bit a1 k" "\<forall>t<k. \<not> bit a1 t"
    by auto
  have "\<forall>p. 8 \<le> p \<and> p < 16 \<and> r \<le> int p \<longrightarrow> \<not> bit a1 (15 - p)"
  proof (intro allI impI)
    fix p :: nat assume "8 \<le> p \<and> p < 16 \<and> r \<le> int p"
    with k(1) have "15 - p < k" by linarith
    with k(4) show "\<not> bit a1 (15 - p)" by simp
  qed
  moreover from k have "16 - nat r = k" by simp
  ultimately show ?thesis using n k by simp
qed


lemma At_bit: "At bs i = (int i < BitLength bs \<and> bit (Bytes bs ! (i div 8)) (7 - i mod 8))"
  by (simp add: At_def and_one_bit)

lemma bit_low_byte: "bit (word_of_int m :: byte) i = (i < 8 \<and> bit m i)"
  by (simp add: bit_word_of_int_iff)

lemma bit_high_byte: "bit (word_of_int (drop_bit 8 m) :: byte) i = (i < 8 \<and> bit m (8 + i))"
  by (simp add: bit_word_of_int_iff bit_drop_bit_eq)

lemma bit_mask16: "0 \<le> (m::int) \<Longrightarrow> m < 65536 \<Longrightarrow> bit m i \<Longrightarrow> i < 16"
proof -
  assume "0 \<le> m" "m < 65536" "bit m i"
  then have "take_bit 16 m = m" by (simp add: take_bit_int_eq_self)
  with \<open>bit m i\<close> have "bit (take_bit 16 m) i" by simp
  then show "i < 16" by (simp only: bit_take_bit_iff)
qed

lemma keyUsage_bits:
  assumes m: "0 \<le> m" "m < 65536"
  shows "0 \<le> BitLength (ext_Value (newKeyUsageExtension m))"
    and "BitLength (ext_Value (newKeyUsageExtension m))
           \<le> 8 * int (length (Bytes (ext_Value (newKeyUsageExtension m))))"
    and "\<forall>i. int i < BitLength (ext_Value (newKeyUsageExtension m)) \<longrightarrow>
           bit (Bytes (ext_Value (newKeyUsageExtension m)) ! (i div 8)) (7 - i mod 8) = bit m i"
    and "\<forall>i. BitLength (ext_Value (newKeyUsageExtension m)) \<le> int i \<longrightarrow> \<not> bit m i"
    and "0 < BitLength (ext_Value (newKeyUsageExtension m)) \<longrightarrow>
           bit m (nat (BitLength (ext_Value (newKeyUsageExtension m))) - 1)"
proof -
  define lo :: byte where "lo = word_of_int m"
  define hi :: byte where "hi = word_of_int (drop_bit 8 m)"
  define a0 where "a0 = reverseBitsInAByte lo"
  define a1 where "a1 = reverseBitsInAByte hi"
  let ?bs = "ext_Value (newKeyUsageExtension m)"
  have "0 \<le> BitLength ?bs \<and> BitLength ?bs \<le> 8 * int (length (Bytes ?bs)) \<and>
        (\<forall>i. int i < BitLength ?bs \<longrightarrow> bit (Bytes ?bs ! (i div 8)) (7 - i mod 8) = bit m i) \<and>
        (\<forall>i. BitLength ?bs \<le> int i \<longrightarrow> \<not> bit m i) \<and>
        (0 < BitLength ?bs \<longrightarrow> bit m (nat (BitLength ?bs) - 1))"
  proof (cases "a1 = 0")
    case True
    then have hi0: "hi = 0" by (simp add: a1_def reverse_zero_iff)
    have bs: "?bs = \<lparr> Bytes = [a0], BitLength = asn1BitLength [a0] \<rparr>"
      using True by (simp add: newKeyUsageExtension_def Let_def a0_def a1_def lo_def hi_def)
    define n where "n = asn1BitLength [a0]"
    from bitLength_one [of a0] have n: "0 \<le> n" "n \<le> 8"
      "\<forall>p<8. n \<le> int p \<longrightarrow> \<not> bit a0 (7 - p)" "0 < n \<longrightarrow> bit a0 (8 - nat n)"
      by (simp_all add: n_def)
    have high: "\<not> bit m i" if "8 \<le> i" for i
    proof
      assume b: "bit m i"
      with m have "i < 16" by (rule bit_mask16)
      with that have "i - 8 < 8" "8 + (i - 8) = i" by auto
      with b have "bit hi (i - 8)" by (simp add: hi_def bit_high_byte)
      with hi0 show False by simp
    qed
    have low: "bit a0 (7 - i) = bit m i" if "i < 8" for i
    proof -
      from that have "7 - i < 8" "7 - (7 - i) = i" by auto
      then show ?thesis using that by (simp add: a0_def bit_reverse lo_def bit_low_byte)
    qed
    have f1: "\<forall>i. int i < n \<longrightarrow> bit ([a0] ! (i div 8)) (7 - i mod 8) = bit m i"
    proof (intro allI impI)
      fix i assume "int i < n"
      with n(2) have "i < 8" by linarith
      then show "bit ([a0] ! (i div 8)) (7 - i mod 8) = bit m i" by (simp add: low)
    qed
    have f2: "\<forall>i. n \<le> int i \<longrightarrow> \<not> bit m i"
    proof (intro allI impI)
      fix i assume ni: "n \<le> int i"
      show "\<not> bit m i"
      proof (cases "i < 8")
        case True
        with ni n(3) have "\<not> bit a0 (7 - i)" by simp
        with True show ?thesis by (simp add: low)
      next
        case False
        then show ?thesis by (simp add: high)
      qed
    qed
    have f3: "0 < n \<longrightarrow> bit m (nat n - 1)"
    proof
      assume "0 < n"
      with n(2) n(4) have "bit a0 (8 - nat n)" "nat n - 1 < 8" "7 - (nat n - 1) = 8 - nat n"
        by auto
      with low [of "nat n - 1"] show "bit m (nat n - 1)" by simp
    qed
    from n f1 f2 f3 show ?thesis by (simp add: bs n_def [symmetric])
  next
    case False
    have bs: "?bs = \<lparr> Bytes = [a0, a1], BitLength = asn1BitLength [a0, a1] \<rparr>"
      using False by (simp add: newKeyUsageExtension_def Let_def a0_def a1_def lo_def hi_def)
    define n where "n = asn1BitLength [a0, a1]"
    from bitLength_two [OF False, of a0] have n: "8 < n" "n \<le> 16"
      "\<forall>p. 8 \<le> p \<and> p < 16 \<and> n \<le> int p \<longrightarrow> \<not> bit a1 (15 - p)" "bit a1 (16 - nat n)"
      by (simp_all add: n_def)
    have low: "bit a0 (7 - i) = bit m i" if "i < 8" for i
    proof -
      from that have "7 - i < 8" "7 - (7 - i) = i" by auto
      then show ?thesis using that by (simp add: a0_def bit_reverse lo_def bit_low_byte)
    qed
    have up: "bit a1 (15 - i) = bit m i" if "8 \<le> i" "i < 16" for i
    proof -
      from that have "15 - i < 8" "7 - (15 - i) = i - 8" "8 + (i - 8) = i" "i - 8 < 8" by auto
      then show ?thesis by (simp add: a1_def bit_reverse hi_def bit_high_byte)
    qed
    have f1: "\<forall>i. int i < n \<longrightarrow> bit ([a0, a1] ! (i div 8)) (7 - i mod 8) = bit m i"
    proof (intro allI impI)
      fix i assume "int i < n"
      with n(2) have i16: "i < 16" by linarith
      show "bit ([a0, a1] ! (i div 8)) (7 - i mod 8) = bit m i"
      proof (cases "i < 8")
        case True
        then show ?thesis by (simp add: low)
      next
        case False
        with i16 have "i div 8 = 1" "7 - i mod 8 = 15 - i" by presburger+
        with False i16 show ?thesis by (simp add: up)
      qed
    qed
    have f2: "\<forall>i. n \<le> int i \<longrightarrow> \<not> bit m i"
    proof (intro allI impI)
      fix i assume ni: "n \<le> int i"
      with n(1) have i8: "8 \<le> i" by linarith
      show "\<not> bit m i"
      proof (cases "i < 16")
        case True
        with ni i8 n(3) have "\<not> bit a1 (15 - i)" by simp
        with True i8 show ?thesis by (simp add: up)
      next
        case False
        with m bit_mask16 [of m i] show ?thesis by auto
      qed
    qed
    have f3: "0 < n \<longrightarrow> bit m (nat n - 1)"
    proof
      assume "0 < n"
      from n(1) n(2) have "8 \<le> nat n - 1" "nat n - 1 < 16" "15 - (nat n - 1) = 16 - nat n"
        by auto
      with up [of "nat n - 1"] n(4) show "bit m (nat n - 1)" by simp
    qed
    from n f1 f2 f3 show ?thesis by (simp add: bs n_def [symmetric])
  qed
  then show "0 \<le> BitLength ?bs"
    and "BitLength ?bs \<le> 8 * int (length (Bytes ?bs))"
    and "\<forall>i. int i < BitLength ?bs \<longrightarrow> bit (Bytes ?bs ! (i div 8)) (7 - i mod 8) = bit m i"
    and "\<forall>i. BitLength ?bs \<le> int i \<longrightarrow> \<not> bit m i"
    and "0 < BitLength ?bs \<longrightarrow> bit m (nat (BitLength ?bs) - 1)"
    by blast+
qed

lemma decode_roundtrip:
  assumes m: "0 \<le> m" "m < 65536"
  shows "decodeKeyUsage (ext_Value (newKeyUsageExtension m)) = m"
proof -
  let ?bs = "ext_Value (newKeyUsageExtension m)"
  let ?n = "nat (BitLength ?bs)"
  from keyUsage_bits [OF m] have
    f1: "\<forall>i. int i < BitLength ?bs \<longrightarrow> bit (Bytes ?bs ! (i div 8)) (7 - i mod 8) = bit m i"
    and f2: "\<forall>i. BitLength ?bs \<le> int i \<longrightarrow> \<not> bit m i"
    by blast+
  have mapeq: "map (At ?bs) [0..<?n] = map (bit m) [0..<?n]"
  proof (rule map_cong [OF refl])
    fix i assume "i \<in> set [0..<?n]"
    then have "int i < BitLength ?bs" by auto
    with f1 show "At ?bs i = bit m i" by (simp add: At_bit)
  qed
  have "decodeKeyUsage ?bs = horner_sum of_bool 2 (map (bit m) [0..<?n])"
    by (simp only: decodeKeyUsage_def mapeq)
  also have "\<dots> = take_bit ?n m"
    by (rule horner_sum_bit_eq_take_bit)
  also have "take_bit ?n m = m"
  proof (rule bit_eqI)
    fix i
    show "bit (take_bit ?n m) i = bit m i"
    proof (cases "i < ?n")
      case True
      then show ?thesis by (simp add: bit_take_bit_iff)
    next
      case False
      then have "BitLength ?bs \<le> int i" by linarith
      with f2 have "\<not> bit m i" by simp
      then show ?thesis by (simp add: bit_take_bit_iff)
    qed
  qed
  finally show ?thesis .
qed

lemma keyUsage_bytes:
  "i < 8 * length (Bytes (ext_Value (newKeyUsageExtension m))) \<Longrightarrow>
   bit (Bytes (ext_Value (newKeyUsageExtension m)) ! (i div 8)) (7 - i mod 8) = bit m i"
proof -
  let ?a0 = "reverseBitsInAByte (word_of_int m)"
  let ?a1 = "reverseBitsInAByte (word_of_int (drop_bit 8 m))"
  let ?l = "if ?a1 \<noteq> 0 then 2 else 1 :: nat"
  assume "i < 8 * length (Bytes (ext_Value (newKeyUsageExtension m)))"
  then have i: "i < 8 * ?l"
    by (simp add: newKeyUsageExtension_def Let_def split: if_splits)
  have B: "Bytes (ext_Value (newKeyUsageExtension m)) = take ?l [?a0, ?a1]"
    by (simp add: newKeyUsageExtension_def Let_def)
  show ?thesis
  proof (cases "i < 8")
    case True
    then have "7 - i < 8" "7 - (7 - i) = i" by auto
    with True show ?thesis
      by (simp add: B bit_reverse bit_low_byte)
  next
    case False
    with i have two: "?l = 2" and i16: "i < 16" by (auto split: if_splits)
    from False i16 have "i div 8 = 1" "7 - i mod 8 = 15 - i" by presburger+
    moreover from False i16 have "15 - i < 8" "7 - (15 - i) = i - 8" "8 + (i - 8) = i" "i - 8 < 8"
      by auto
    ultimately show ?thesis
      using two by (simp add: B bit_reverse bit_high_byte)
  qed
qed

text \<open>
  C8. For a key-usage mask that fits the two bytes the builder encodes
  (\<open>0 \<le> m < 2^16\<close>, which covers the nine key-usage bits of X.509), the extension has OID
  2.5.29.15 and is critical; its BIT STRING holds the mask with the bit order reversed in
  each byte (bit \<open>i\<close> of the mask is bit \<open>7 - i mod 8\<close> of byte \<open>i div 8\<close>, so mask bit 0 is
  the most significant bit of the first byte); the reported bit length strips exactly the
  trailing zero bits (no mask bit at or above it is set, and the bit just below it is set
  when it is positive); and decoding the BIT STRING gives the mask back.
\<close>

theorem newKeyUsageExtension_roundtrip:
  assumes "0 \<le> m" and "m < 65536"
  shows "ext_Id (newKeyUsageExtension m) = [2, 5, 29, 15] \<and>
         ext_Critical (newKeyUsageExtension m) \<and>
         (\<forall>i. i < 8 * length (Bytes (ext_Value (newKeyUsageExtension m))) \<longrightarrow>
              bit (Bytes (ext_Value (newKeyUsageExtension m)) ! (i div 8)) (7 - i mod 8) = bit m i) \<and>
         0 \<le> BitLength (ext_Value (newKeyUsageExtension m)) \<and>
         BitLength (ext_Value (newKeyUsageExtension m))
           \<le> 8 * int (length (Bytes (ext_Value (newKeyUsageExtension m)))) \<and>
         (\<forall>i. BitLength (ext_Value (newKeyUsageExtension m)) \<le> int i \<longrightarrow> \<not> bit m i) \<and>
         (0 < BitLength (ext_Value (newKeyUsageExtension m)) \<longrightarrow>
            bit m (nat (BitLength (ext_Value (newKeyUsageExtension m))) - 1)) \<and>
         (\<forall>i. At (ext_Value (newKeyUsageExtension m)) i = bit m i) \<and>
         decodeKeyUsage (ext_Value (newKeyUsageExtension m)) = m"
proof -
  let ?bs = "ext_Value (newKeyUsageExtension m)"
  note kb = keyUsage_bits [OF assms]
  have at: "At ?bs i = bit m i" for i
  proof (cases "int i < BitLength ?bs")
    case True
    with kb(3) show ?thesis by (simp add: At_bit)
  next
    case False
    with kb(4) have "\<not> bit m i" by simp
    with False show ?thesis by (simp add: At_bit)
  qed
  have "ext_Id (newKeyUsageExtension m) = [2, 5, 29, 15]" "ext_Critical (newKeyUsageExtension m)"
    by (simp_all add: newKeyUsageExtension_def Let_def)
  with kb at keyUsage_bytes [of _ m] decode_roundtrip [OF assms] show ?thesis
    by blast
qed

theorem newKeyUsageExtension_roundtrip_witness:
  "(0::int) \<le> 421 \<and> (421::int) < 65536 \<and>
   ext_Value (newKeyUsageExtension 421) = \<lparr> Bytes = [165, 128], BitLength = 9 \<rparr> \<and>
   decodeKeyUsage (ext_Value (newKeyUsageExtension 421)) = 421"
proof -
  have "ext_Value (newKeyUsageExtension 421) = \<lparr> Bytes = [165, 128], BitLength = 9 \<rparr>"
    by code_simp
  with newKeyUsageExtension_roundtrip [of 421] show ?thesis by simp
qed

section \<open>Subject variables\<close>










end
